theory Spec2Isabelle
  imports Main "HOL-Library.FSet"
begin

section \<open>Conventions\<close>

text \<open>
  Python's \<open>X | None\<close> is \<open>'a option\<close> (\<open>None\<close> is Python's \<open>None\<close>); a call that may raise
  returns \<open>py_error + 'a\<close> with \<open>Inl\<close> the exception. Objects of the relational-mapping
  engine (sessions, engines, session makers) are known by their identity, a number; what
  the program does to them is a log of the calls it awaits on them, and how the engine
  answers a call (returning or raising) is a parameter of the state.
\<close>

datatype py_error =
    KeyError string
  | ValueError string
  | TypeError string
  | AttributeError string
  | RepositoryError string
  | StoreError string

section \<open>The request-lifecycle adapter (extensions/litestar/plugins/init/config/asyncio.py)\<close>

subsection \<open>State\<close>

text \<open>A call awaited on a session or on an engine, with the identity of the object.\<close>

datatype call = Commit nat | Rollback nat | Close nat | Dispose nat

text \<open>What the application state holds under a key.\<close>

datatype state_item = Engine nat | SessionMaker nat

text \<open>
  \<open>app_state\<close> is \<open>Litestar.state\<close>, \<open>scope_state\<close> the litestar namespace of the connection
  scope (a session identity under the session key), \<open>created\<close> the number of sessions the
  session makers have produced so far (the next identity), \<open>calls\<close> the calls awaited so
  far, oldest first, and \<open>store\<close> the answer of the engine to a call after the calls before
  it: \<open>None\<close> when it returns, the exception when it raises.
\<close>

record world =
  app_state :: "string \<rightharpoonup> state_item"
  scope_state :: "string \<rightharpoonup> nat"
  created :: nat
  calls :: "call list"
  store :: "call list \<Rightarrow> call \<Rightarrow> py_error option"

type_synonym 'a prog = "world \<Rightarrow> (py_error + 'a) \<times> world"

text \<open>An ASGI message: \<open>message["type"]\<close>, and \<open>message["status"]\<close> where the key is there.\<close>

record message =
  msg_type :: string
  msg_status :: "int option"

text \<open>
  The constants of \<open>plugins/init/config/common.py\<close>, which the handlers read. The module
  is not among the sources verified here, so both are parameters.
\<close>

record common =
  SESSION_SCOPE_KEY :: string
  SESSION_TERMINUS_ASGI_EVENTS :: "string set"

text \<open>\<open>litestar.constants.HTTP_RESPONSE_START\<close>.\<close>

definition HTTP_RESPONSE_START :: string where
  "HTTP_RESPONSE_START = ''http.response.start''"

subsection \<open>Sequencing, \<open>try ... finally\<close> and awaited calls\<close>

definition seq :: "unit prog \<Rightarrow> 'a prog \<Rightarrow> 'a prog" where
  "seq p q w = (case p w of (Inl e, w1) \<Rightarrow> (Inl e, w1) | (Inr u, w1) \<Rightarrow> q w1)"

text \<open>
  Python's \<open>try: body finally: fin\<close>: \<open>fin\<close> runs however \<open>body\<close> ends; an exception of
  \<open>fin\<close> replaces the outcome of \<open>body\<close>, otherwise the outcome of \<open>body\<close> (its value or
  its exception) stands.
\<close>

definition try_finally :: "'a prog \<Rightarrow> unit prog \<Rightarrow> 'a prog" where
  "try_finally body fin w =
     (case body w of (r, w1) \<Rightarrow>
        (case fin w1 of (Inl e, w2) \<Rightarrow> (Inl e, w2) | (Inr u, w2) \<Rightarrow> (r, w2)))"

definition await :: "call \<Rightarrow> unit prog" where
  "await c w =
     ((case store w (calls w) c of None \<Rightarrow> Inr () | Some e \<Rightarrow> Inl e),
      w\<lparr>calls := calls w @ [c]\<rparr>)"

subsection \<open>litestar's scope-state helpers and \<open>State\<close> accessors\<close>

definition get_litestar_scope_state :: "world \<Rightarrow> string \<Rightarrow> nat option" where
  "get_litestar_scope_state w k = scope_state w k"

definition set_litestar_scope_state :: "string \<Rightarrow> nat \<Rightarrow> unit prog" where
  "set_litestar_scope_state k v w = (Inr (), w\<lparr>scope_state := (scope_state w)(k \<mapsto> v)\<rparr>)"

definition delete_litestar_scope_state :: "string \<Rightarrow> unit prog" where
  "delete_litestar_scope_state k w =
     (case scope_state w k of
        None \<Rightarrow> (Inl (KeyError k), w)
      | Some v \<Rightarrow> (Inr (), w\<lparr>scope_state := (scope_state w)(k := None)\<rparr>))"

text \<open>\<open>state.get(key)\<close>, \<open>state[key]\<close> and \<open>state.pop(key)\<close>.\<close>

definition state_get :: "(string \<rightharpoonup> state_item) \<Rightarrow> string \<Rightarrow> state_item option" where
  "state_get st k = st k"

definition state_getitem :: "(string \<rightharpoonup> state_item) \<Rightarrow> string \<Rightarrow> py_error + state_item" where
  "state_getitem st k = (case st k of None \<Rightarrow> Inl (KeyError k) | Some v \<Rightarrow> Inr v)"

definition state_pop :: "string \<Rightarrow> state_item prog" where
  "state_pop k w =
     (case app_state w k of
        None \<Rightarrow> (Inl (KeyError k), w)
      | Some v \<Rightarrow> (Inr v, w\<lparr>app_state := (app_state w)(k := None)\<rparr>))"

subsection \<open>The handlers\<close>

text \<open>
  \<open>if session and message["type"] in SESSION_TERMINUS_ASGI_EVENTS\<close>: a session object is
  truthy, so \<open>session\<close> is false only when it is \<open>None\<close>.
\<close>

definition close_and_clear :: "common \<Rightarrow> message \<Rightarrow> nat option \<Rightarrow> unit prog" where
  "close_and_clear c message session w =
     (case session of
        None \<Rightarrow> (Inr (), w)
      | Some s \<Rightarrow>
          if msg_type message \<in> SESSION_TERMINUS_ASGI_EVENTS c
          then seq (await (Close s)) (delete_litestar_scope_state (SESSION_SCOPE_KEY c)) w
          else (Inr (), w))"

definition default_before_send_handler :: "common \<Rightarrow> message \<Rightarrow> unit prog" where
  "default_before_send_handler c message w =
     (let session = get_litestar_scope_state w (SESSION_SCOPE_KEY c)
      in close_and_clear c message session w)"

text \<open>The \<open>try\<close> block of the autocommit handler.\<close>

definition commit_or_rollback ::
  "int set \<Rightarrow> int fset \<Rightarrow> int fset \<Rightarrow> message \<Rightarrow> nat option \<Rightarrow> unit prog" where
  "commit_or_rollback commit_range extra_commit_statuses extra_rollback_statuses message session w =
     (case session of
        None \<Rightarrow> (Inr (), w)
      | Some s \<Rightarrow>
          if msg_type message = HTTP_RESPONSE_START
          then (case msg_status message of
                  None \<Rightarrow> (Inl (KeyError ''status''), w)
                | Some status \<Rightarrow>
                    if (status \<in> commit_range \<or> status |\<in>| extra_commit_statuses)
                       \<and> status |\<notin>| extra_rollback_statuses
                    then await (Commit s) w
                    else await (Rollback s) w)
          else (Inr (), w))"

definition handler ::
  "common \<Rightarrow> int set \<Rightarrow> int fset \<Rightarrow> int fset \<Rightarrow> message \<Rightarrow> unit prog" where
  "handler c commit_range extra_commit_statuses extra_rollback_statuses message w =
     (let session = get_litestar_scope_state w (SESSION_SCOPE_KEY c)
      in try_finally
           (commit_or_rollback commit_range extra_commit_statuses extra_rollback_statuses
              message session)
           (close_and_clear c message session) w)"

text \<open>\<open>if extra_commit_statuses is None: extra_commit_statuses = set()\<close>, and the same for rollback.\<close>

definition statuses_or_empty :: "int fset option \<Rightarrow> int fset" where
  "statuses_or_empty statuses = (case statuses of None \<Rightarrow> {||} | Some s \<Rightarrow> s)"

definition autocommit_handler_maker ::
  "common \<Rightarrow> bool \<Rightarrow> int fset option \<Rightarrow> int fset option \<Rightarrow> py_error + (message \<Rightarrow> unit prog)" where
  "autocommit_handler_maker c commit_on_redirect extra_commit_statuses extra_rollback_statuses =
     (let extra_commit_statuses1 = statuses_or_empty extra_commit_statuses;
          extra_rollback_statuses1 = statuses_or_empty extra_rollback_statuses
      in if 0 < fcard (extra_commit_statuses1 |\<inter>| extra_rollback_statuses1)
         then Inl (ValueError
           ''Extra rollback statuses and commit statuses must not share any status codes'')
         else Inr (handler c {200 ..< (if \<not> commit_on_redirect then 300 else 400)}
                 extra_commit_statuses1 extra_rollback_statuses1))"

definition autocommit_before_send_handler :: "common \<Rightarrow> py_error + (message \<Rightarrow> unit prog)" where
  "autocommit_before_send_handler c = autocommit_handler_maker c False None None"

subsection \<open>\<open>SQLAlchemyAsyncConfig\<close>\<close>

record config =
  engine_dependency_key :: string
  session_dependency_key :: string
  engine_app_state_key :: string
  session_maker_app_state_key :: string

definition default_config :: config where
  "default_config =
     \<lparr>engine_dependency_key = ''db_engine'', session_dependency_key = ''db_session'',
      engine_app_state_key = ''db_engine'', session_maker_app_state_key = ''session_maker_class''\<rparr>"

definition provide_engine :: "config \<Rightarrow> (string \<rightharpoonup> state_item) \<Rightarrow> state_item option" where
  "provide_engine self st = state_get st (engine_app_state_key self)"

text \<open>
  \<open>session_maker()\<close> builds a session object and returns it; a stored object that is not
  callable (an engine) raises \<open>TypeError\<close>. The state is \<open>app_state\<close>, the scope
  \<open>scope_state\<close>.
\<close>

definition provide_session :: "config \<Rightarrow> common \<Rightarrow> nat prog" where
  "provide_session self c w =
     (case get_litestar_scope_state w (SESSION_SCOPE_KEY c) of
        Some session \<Rightarrow> (Inr session, w)
      | None \<Rightarrow>
          (case state_getitem (app_state w) (session_maker_app_state_key self) of
             Inl e \<Rightarrow> (Inl e, w)
           | Inr (Engine n) \<Rightarrow> (Inl (TypeError ''object is not callable''), w)
           | Inr (SessionMaker n) \<Rightarrow>
               (let session = created w;
                    w1 = w\<lparr>created := Suc (created w)\<rparr>
                in case set_litestar_scope_state (SESSION_SCOPE_KEY c) session w1 of
                     (r, w2) \<Rightarrow> (Inr session, w2))))"

definition on_shutdown :: "config \<Rightarrow> unit prog" where
  "on_shutdown self w =
     (case state_pop (engine_app_state_key self) w of
        (Inl e, w1) \<Rightarrow> (Inl e, w1)
      | (Inr (Engine n), w1) \<Rightarrow> await (Dispose n) w1
      | (Inr (SessionMaker n), w1) \<Rightarrow> (Inl (AttributeError ''dispose''), w1))"


section \<open>The service layer (service/_async.py)\<close>

subsection \<open>Entities, input data and the repository\<close>

text \<open>
  An entity: the name of its model class and its attributes by name. An attribute that is
  not populated reads \<open>None\<close>, as a mapped column that was never set does.
\<close>

record 'v entity =
  model_class :: string
  attrs :: "string \<rightharpoonup> 'v"

text \<open>
  \<open>data: ModelT | dict[str, Any]\<close>. A dictionary maps the keys it has to their values, and
  a value may be Python's \<open>None\<close>: \<open>kwargs k = None\<close> says that \<open>k\<close> is not a key,
  \<open>kwargs k = Some None\<close> that the key is there with the value \<open>None\<close>.
\<close>

datatype 'v payload = Dict "string \<rightharpoonup> 'v option" | Model "'v entity"

text \<open>
  \<open>id_attribute: str | InstrumentedAttribute | None\<close>; an \<open>InstrumentedAttribute\<close> is
  known by its \<open>description\<close>.
\<close>

datatype id_attribute_arg = Str string | InstrumentedAttribute string

text \<open>What the service reads of its repository: the bound model type and \<open>id_attribute\<close>.\<close>

record repository =
  model_type :: string
  id_attribute :: string

record service =
  repository :: repository
  match_fields :: "string list option"

text \<open>
  The operations of the repository that reach the unit-of-work, with the arguments the
  service passes: the entity (or entities), and \<open>'o\<close> for the keyword arguments it hands
  on as they are (\<open>attribute_names\<close>, \<open>with_for_update\<close>, \<open>auto_commit\<close>, \<open>auto_expunge\<close>,
  \<open>auto_refresh\<close>, \<open>no_merge\<close>, \<open>upsert\<close>).
\<close>

datatype ('v, 'o) repo_call =
    Add "'v entity"
  | AddMany "'v entity list" 'o
  | Update "'v entity" "string option" 'o
  | UpdateMany "'v entity list" 'o
  | Upsert "'v entity" 'o
  | UpsertMany "'v entity list" 'o
  | GetOrUpsert "string list option" "string \<rightharpoonup> 'v" 'o

text \<open>
  The unit-of-work as the service sees it: the repository operations awaited so far,
  oldest first, and the answer of the repository to an operation after those before it
  (an exception, or a result of type \<open>'r\<close> that the service returns as it is).
\<close>

record ('v, 'o, 'r) unit_of_work =
  repo_calls :: "('v, 'o) repo_call list"
  repo_answer :: "('v, 'o) repo_call list \<Rightarrow> ('v, 'o) repo_call \<Rightarrow> py_error + 'r"

definition invoke ::
  "('v, 'o) repo_call \<Rightarrow> ('v, 'o, 'r) unit_of_work
     \<Rightarrow> (py_error + 'r) \<times> ('v, 'o, 'r) unit_of_work" where
  "invoke k d = (repo_answer d (repo_calls d) k, d\<lparr>repo_calls := repo_calls d @ [k]\<rparr>)"

text \<open>
  A call \<open>f(name=x, **mapping)\<close> raises \<open>TypeError\<close> before \<open>f\<close> runs when \<open>name\<close> is a
  key of the mapping: the keyword is given twice. \<open>keyword_clash names mapping\<close> is the
  first of the named keywords that is a key of the mapping.
\<close>

definition multiple_values :: "string \<Rightarrow> py_error" where
  "multiple_values name = TypeError (''got multiple values for keyword argument '' @ name)"

definition keyword_clash :: "string list \<Rightarrow> (string \<rightharpoonup> 'a) \<Rightarrow> string option" where
  "keyword_clash names mapping = List.find (\<lambda>name. mapping name \<noteq> None) names"

text \<open>
  Modelled from the spec: \<open>model_from_dict\<close> of \<open>repository/_util.py\<close>, which is not among
  the sources; it constructs an entity of the bound type from the keys and values of the
  mapping (a key whose value is \<open>None\<close> gives an attribute that reads \<open>None\<close>).
\<close>

definition model_from_dict :: "string \<Rightarrow> (string \<rightharpoonup> 'v option) \<Rightarrow> 'v entity" where
  "model_from_dict model kwargs =
     \<lparr>model_class = model, attrs = (\<lambda>k. case kwargs k of None \<Rightarrow> None | Some v \<Rightarrow> v)\<rparr>"

text \<open>
  Modelled from the spec: \<open>get_id_attribute_value\<close> of the repository class, which is not
  among the sources; it reads the identifier attribute of the item, named by
  \<open>id_attribute\<close> when given and by the repository's \<open>id_attribute\<close> otherwise.
\<close>

definition get_id_attribute_value ::
  "repository \<Rightarrow> 'v entity \<Rightarrow> string option \<Rightarrow> 'v option" where
  "get_id_attribute_value repo item id_attr =
     attrs item (case id_attr of None \<Rightarrow> id_attribute repo | Some a \<Rightarrow> a)"

text \<open>
  Modelled from the spec: \<open>set_id_attribute_value\<close> of the repository class, which is not
  among the sources; it sets the identifier attribute of the item to \<open>item_id\<close> (even if
  null) and returns the item.
\<close>

definition set_id_attribute_value ::
  "repository \<Rightarrow> 'v option \<Rightarrow> 'v entity \<Rightarrow> string option \<Rightarrow> 'v entity" where
  "set_id_attribute_value repo item_id item id_attr =
     item\<lparr>attrs := (attrs item)
       ((case id_attr of None \<Rightarrow> id_attribute repo | Some a \<Rightarrow> a) := item_id)\<rparr>"

text \<open>
  Modelled from the spec: \<open>to_dict\<close> of the model base class, which is not among the
  sources; it re-expands the entity into the mapping of its attributes.
\<close>

definition to_dict :: "'v entity \<Rightarrow> (string \<rightharpoonup> 'v)" where
  "to_dict item = attrs item"

subsection \<open>The service operations\<close>

text \<open>
  \<open>model_from_dict(model=self.repository.model_type, **data)\<close>: the call gives the keyword
  \<open>model\<close> itself, so a dictionary with the key \<open>model\<close> raises \<open>TypeError\<close> at the call.
\<close>

definition to_model ::
  "service \<Rightarrow> 'v payload \<Rightarrow> string option \<Rightarrow> py_error + 'v entity" where
  "to_model self data operation =
     (case data of
        Dict kwargs \<Rightarrow>
          (case keyword_clash [''model''] kwargs of
             Some name \<Rightarrow> Inl (multiple_values name)
           | None \<Rightarrow> Inr (model_from_dict (model_type (repository self)) kwargs))
      | Model item \<Rightarrow> Inr item)"

text \<open>
  \<open>[(await self.to_model(datum, operation)) for datum in data]\<close>: the elements are
  converted in order, and the first exception ends the comprehension.
\<close>

fun to_model_each ::
  "service \<Rightarrow> 'v payload list \<Rightarrow> string option \<Rightarrow> py_error + 'v entity list" where
  "to_model_each self [] operation = Inr []"
| "to_model_each self (datum # data) operation =
     (case to_model self datum operation of
        Inl e \<Rightarrow> Inl e
      | Inr item \<Rightarrow>
          (case to_model_each self data operation of
             Inl e \<Rightarrow> Inl e
           | Inr items \<Rightarrow> Inr (item # items)))"

definition create ::
  "service \<Rightarrow> 'v payload \<Rightarrow> ('v, 'o, 'r) unit_of_work
     \<Rightarrow> (py_error + 'r) \<times> ('v, 'o, 'r) unit_of_work" where
  "create self data d =
     (case to_model self data (Some ''create'') of
        Inl e \<Rightarrow> (Inl e, d)
      | Inr data1 \<Rightarrow> invoke (Add data1) d)"

definition create_many ::
  "service \<Rightarrow> 'v payload list \<Rightarrow> 'o \<Rightarrow> ('v, 'o, 'r) unit_of_work
     \<Rightarrow> (py_error + 'r) \<times> ('v, 'o, 'r) unit_of_work" where
  "create_many self data kw d =
     (case to_model_each self data (Some ''create'') of
        Inl e \<Rightarrow> (Inl e, d)
      | Inr data1 \<Rightarrow> invoke (AddMany data1 kw) d)"

text \<open>
  \<open>if isinstance(id_attribute, InstrumentedAttribute): id_attribute = id_attribute.description\<close>
\<close>

definition id_attribute_str :: "id_attribute_arg option \<Rightarrow> string option" where
  "id_attribute_str id_attr =
     (case id_attr of
        Some (InstrumentedAttribute description) \<Rightarrow> Some description
      | Some (Str a) \<Rightarrow> Some a
      | None \<Rightarrow> None)"

text \<open>The message of the error of \<open>update\<close>; \<open>x or y\<close> is \<open>y\<close> when \<open>x\<close> is \<open>None\<close> or empty.\<close>

definition could_not_identify :: "repository \<Rightarrow> string option \<Rightarrow> string" where
  "could_not_identify repo id_attr =
     ''Could not identify ID attribute value.  One of the following is required: ''
     @ ''``item_id`` or ``data.''
     @ (case id_attr of None \<Rightarrow> id_attribute repo | Some a \<Rightarrow> if a = [] then id_attribute repo else a)
     @ ''``''"

definition update ::
  "service \<Rightarrow> 'v payload \<Rightarrow> 'v option \<Rightarrow> id_attribute_arg option \<Rightarrow> 'o
     \<Rightarrow> ('v, 'o, 'r) unit_of_work \<Rightarrow> (py_error + 'r) \<times> ('v, 'o, 'r) unit_of_work" where
  "update self data item_id id_attr kw d =
     (case to_model self data (Some ''update'') of
        Inl e \<Rightarrow> (Inl e, d)
      | Inr data1 \<Rightarrow>
          (let id_attr1 = id_attribute_str id_attr
           in if item_id = None \<and>
                 get_id_attribute_value (repository self) data1 id_attr1 = None
              then (Inl (RepositoryError (could_not_identify (repository self) id_attr1)), d)
              else
                (let data2 = (if item_id \<noteq> None
                              then set_id_attribute_value (repository self) item_id data1 id_attr1
                              else data1)
                 in invoke (Update data2 id_attr1 kw) d)))"

definition update_many ::
  "service \<Rightarrow> 'v payload list \<Rightarrow> 'o \<Rightarrow> ('v, 'o, 'r) unit_of_work
     \<Rightarrow> (py_error + 'r) \<times> ('v, 'o, 'r) unit_of_work" where
  "update_many self data kw d =
     (case to_model_each self data (Some ''update'') of
        Inl e \<Rightarrow> (Inl e, d)
      | Inr data1 \<Rightarrow> invoke (UpdateMany data1 kw) d)"

text \<open>
  \<open>set_id_attribute_value\<close> changes \<open>data\<close> in place, so the entity handed to the
  repository is the one with the identifier set.
\<close>

definition upsert ::
  "service \<Rightarrow> 'v payload \<Rightarrow> 'v option \<Rightarrow> 'o
     \<Rightarrow> ('v, 'o, 'r) unit_of_work \<Rightarrow> (py_error + 'r) \<times> ('v, 'o, 'r) unit_of_work" where
  "upsert self data item_id kw d =
     (case to_model self data (Some ''upsert'') of
        Inl e \<Rightarrow> (Inl e, d)
      | Inr data1 \<Rightarrow>
          (let data2 = set_id_attribute_value (repository self) item_id data1 None
           in invoke (Upsert data2 kw) d))"

definition upsert_many ::
  "service \<Rightarrow> 'v payload list \<Rightarrow> 'o \<Rightarrow> ('v, 'o, 'r) unit_of_work
     \<Rightarrow> (py_error + 'r) \<times> ('v, 'o, 'r) unit_of_work" where
  "upsert_many self data kw d =
     (case to_model_each self data (Some ''upsert'') of
        Inl e \<Rightarrow> (Inl e, d)
      | Inr data1 \<Rightarrow> invoke (UpsertMany data1 kw) d)"

text \<open>
  \<open>match_fields or self.match_fields\<close>: \<open>None\<close> and the empty list are false. The call of
  the repository names seven keywords and expands \<open>validated_model.to_dict()\<close> after them,
  so a key of that mapping with one of their names raises \<open>TypeError\<close> at the call.
\<close>

definition get_or_upsert ::
  "service \<Rightarrow> string list option \<Rightarrow> 'o \<Rightarrow> (string \<rightharpoonup> 'v option)
     \<Rightarrow> ('v, 'o, 'r) unit_of_work \<Rightarrow> (py_error + 'r) \<times> ('v, 'o, 'r) unit_of_work" where
  "get_or_upsert self match_fields_arg kw kwargs d =
     (let match_fields1 = (case match_fields_arg of
                             None \<Rightarrow> match_fields self
                           | Some [] \<Rightarrow> match_fields self
                           | Some (f # fs) \<Rightarrow> Some (f # fs))
      in case to_model self (Dict kwargs) (Some ''create'') of
           Inl e \<Rightarrow> (Inl e, d)
         | Inr validated_model \<Rightarrow>
             (case keyword_clash
                     [''match_fields'', ''upsert'', ''attribute_names'', ''with_for_update'',
                      ''auto_commit'', ''auto_expunge'', ''auto_refresh'']
                     (to_dict validated_model) of
                Some name \<Rightarrow> (Inl (multiple_values name), d)
              | None \<Rightarrow> invoke (GetOrUpsert match_fields1 (to_dict validated_model) kw) d))"

section \<open>Example inputs, and the words of the specification\<close>

text \<open>
  An instance of the constants of \<open>common.py\<close>, a request with a session open and no
  failing call, a request whose commit fails, and a request before its first access.
\<close>

definition common_example :: common where
  "common_example =
     \<lparr>SESSION_SCOPE_KEY = ''_sqlalchemy_db_session'',
      SESSION_TERMINUS_ASGI_EVENTS =
        {''http.response.start'', ''http.disconnect'', ''websocket.disconnect'',
         ''websocket.close''}\<rparr>"

definition world_example :: world where
  "world_example =
     \<lparr>app_state = [''db_engine'' \<mapsto> Engine 0, ''session_maker_class'' \<mapsto> SessionMaker 0],
      scope_state = [''_sqlalchemy_db_session'' \<mapsto> 0], created = 1, calls = [],
      store = (\<lambda>t k. None)\<rparr>"

definition failing_commit_world :: world where
  "failing_commit_world =
     \<lparr>app_state = Map.empty, scope_state = [''_sqlalchemy_db_session'' \<mapsto> 0], created = 1,
      calls = [],
      store = (\<lambda>t k. if k = Commit 0 then Some (StoreError ''commit failed'') else None)\<rparr>"

definition fresh_world :: world where
  "fresh_world =
     \<lparr>app_state = [''db_engine'' \<mapsto> Engine 0, ''session_maker_class'' \<mapsto> SessionMaker 0],
      scope_state = Map.empty, created = 0, calls = [], store = (\<lambda>t k. None)\<rparr>"

definition service_example :: service where
  "service_example =
     \<lparr>repository = \<lparr>model_type = ''BigIntAuthor'', id_attribute = ''id''\<rparr>,
      match_fields = None\<rparr>"

definition car_service :: service where
  "car_service =
     \<lparr>repository = \<lparr>model_type = ''Car'', id_attribute = ''id''\<rparr>, match_fields = None\<rparr>"

definition unit_of_work_example :: "(int, unit, int entity) unit_of_work" where
  "unit_of_work_example =
     \<lparr>repo_calls = [], repo_answer = (\<lambda>t k. Inl (StoreError ''no database''))\<rparr>"

text \<open>
  The specification's rule for the autocommit handler, in its words: commit when the
  status is in 200--299 (200--399 when redirects commit) or in the extra-commit set, and
  not in the extra-rollback set.
\<close>

definition commits_spec :: "bool \<Rightarrow> int fset option \<Rightarrow> int fset option \<Rightarrow> int \<Rightarrow> bool" where
  "commits_spec commit_on_redirect extra_commit_statuses extra_rollback_statuses status =
     (((200 \<le> status \<and> status \<le> (if commit_on_redirect then 399 else 299))
        \<or> status |\<in>| statuses_or_empty extra_commit_statuses)
      \<and> status |\<notin>| statuses_or_empty extra_rollback_statuses)"

section \<open>Properties of the request-lifecycle adapter\<close>

subsection \<open>Auxiliary facts\<close>

lemma maker_Inr:
  assumes "autocommit_handler_maker c cor ecs ers = Inr h"
  shows "h = handler c {200 ..< (if \<not> cor then 300 else 400)}
               (statuses_or_empty ecs) (statuses_or_empty ers)"
  using assms
  by (auto simp: autocommit_handler_maker_def Let_def split: if_splits)

lemma fcard_inter_pos: "(0 < fcard (A |\<inter>| B)) = (\<exists>x. x |\<in>| A \<and> x |\<in>| B)"
proof -
  have "(0 < fcard (A |\<inter>| B)) = (A |\<inter>| B \<noteq> {||})"
    by (simp add: fcard_0_eq zero_less_iff_neq_zero del: neq0_conv)
  also have "\<dots> = (\<exists>x. x |\<in>| A \<and> x |\<in>| B)" by auto
  finally show ?thesis .
qed

lemma snd_await: "snd (await k w) = w\<lparr>calls := calls w @ [k]\<rparr>"
  by (simp add: await_def)

lemma fst_await:
  "fst (await k w) = (case store w (calls w) k of None \<Rightarrow> Inr () | Some e \<Rightarrow> Inl e)"
  by (simp add: await_def)

lemma snd_try_finally: "snd (try_finally b f w) = snd (f (snd (b w)))"
  by (simp add: try_finally_def split: prod.splits sum.splits)

lemma fst_try_finally:
  "fst (try_finally b f w) =
     (case fst (f (snd (b w))) of Inl e \<Rightarrow> Inl e | Inr u \<Rightarrow> fst (b w))"
  by (simp add: try_finally_def split: prod.splits sum.splits)

lemma close_and_clear_terminus:
  assumes "msg_type m \<in> SESSION_TERMINUS_ASGI_EVENTS c"
  shows "close_and_clear c m (Some s) w =
     (case store w (calls w) (Close s) of
        Some e \<Rightarrow> (Inl e, w\<lparr>calls := calls w @ [Close s]\<rparr>)
      | None \<Rightarrow>
          (case scope_state w (SESSION_SCOPE_KEY c) of
             None \<Rightarrow> (Inl (KeyError (SESSION_SCOPE_KEY c)), w\<lparr>calls := calls w @ [Close s]\<rparr>)
           | Some v \<Rightarrow> (Inr (), w\<lparr>calls := calls w @ [Close s],
                                  scope_state := (scope_state w)(SESSION_SCOPE_KEY c := None)\<rparr>)))"
  using assms
  by (simp add: close_and_clear_def seq_def await_def delete_litestar_scope_state_def
      split: option.splits)

lemma close_and_clear_other:
  assumes "msg_type m \<notin> SESSION_TERMINUS_ASGI_EVENTS c"
  shows "close_and_clear c m x w = (Inr (), w)"
  using assms by (simp add: close_and_clear_def split: option.splits)

lemma calls_close_and_clear:
  "calls (snd (close_and_clear c m (Some s) w)) =
     calls w @ (if msg_type m \<in> SESSION_TERMINUS_ASGI_EVENTS c then [Close s] else [])"
  by (simp add: close_and_clear_terminus close_and_clear_other split: option.splits)

lemma created_close_and_clear: "created (snd (close_and_clear c m x w)) = created w"
  by (simp add: close_and_clear_def seq_def await_def delete_litestar_scope_state_def
      split: option.splits)

lemma commit_or_rollback_start:
  assumes "msg_type m = HTTP_RESPONSE_START" and "msg_status m = Some st"
  shows "commit_or_rollback {200 ..< (if \<not> cor then 300 else 400)}
           (statuses_or_empty ecs) (statuses_or_empty ers) m (Some s) w =
         await (if commits_spec cor ecs ers st then Commit s else Rollback s) w"
  using assms by (cases cor) (auto simp: commit_or_rollback_def commits_spec_def)

lemma commit_or_rollback_frame:
  "scope_state (snd (commit_or_rollback r a b m x w)) = scope_state w \<and>
   store (snd (commit_or_rollback r a b m x w)) = store w \<and>
   app_state (snd (commit_or_rollback r a b m x w)) = app_state w \<and>
   created (snd (commit_or_rollback r a b m x w)) = created w"
  by (simp add: commit_or_rollback_def await_def split: option.splits)

lemma calls_commit_or_rollback:
  "\<exists>before. calls (snd (commit_or_rollback r a b m x w)) = calls w @ before"
  by (simp add: commit_or_rollback_def await_def split: option.splits)

lemma created_handler: "created (snd (handler c r a b m w)) = created w"
  by (simp add: handler_def Let_def snd_try_finally created_close_and_clear
      commit_or_rollback_frame)

lemma created_default_before_send_handler:
  "created (snd (default_before_send_handler c m w)) = created w"
  by (simp add: default_before_send_handler_def Let_def created_close_and_clear)

text \<open>
  The autocommit handler on a terminus message: \<open>close\<close> is awaited after the \<open>try\<close>
  block however the block ended; when \<open>close\<close> returns the key is deleted and the outcome
  is that of the block, and when \<open>close\<close> raises its exception is the outcome and the key
  stays.
\<close>

lemma handler_on_terminus:
  assumes "scope_state w (SESSION_SCOPE_KEY c) = Some s"
      and "msg_type m \<in> SESSION_TERMINUS_ASGI_EVENTS c"
  shows "handler c r a b m w =
     (let body = commit_or_rollback r a b m (Some s) w;
          w1 = (snd body)\<lparr>calls := calls (snd body) @ [Close s]\<rparr>
      in case store w (calls (snd body)) (Close s) of
           Some e \<Rightarrow> (Inl e, w1)
         | None \<Rightarrow> (fst body, w1\<lparr>scope_state := (scope_state w)(SESSION_SCOPE_KEY c := None)\<rparr>))"
    (is "?l = ?r")
proof (rule prod_eqI)
  show "fst ?l = fst ?r"
    using assms
    by (simp add: handler_def get_litestar_scope_state_def Let_def fst_try_finally
        close_and_clear_terminus commit_or_rollback_frame split: option.splits)
  show "snd ?l = snd ?r"
    using assms
    by (simp add: handler_def get_litestar_scope_state_def Let_def snd_try_finally
        close_and_clear_terminus commit_or_rollback_frame split: option.splits)
qed

lemma handler_close_raises:
  assumes "scope_state w (SESSION_SCOPE_KEY c) = Some s"
      and "msg_type m \<in> SESSION_TERMINUS_ASGI_EVENTS c"
      and "store w (calls (snd (commit_or_rollback r a b m (Some s) w))) (Close s) = Some e"
  shows "fst (handler c r a b m w) = Inl e \<and>
         scope_state (snd (handler c r a b m w)) (SESSION_SCOPE_KEY c) = Some s"
  using assms
  by (simp add: handler_on_terminus Let_def commit_or_rollback_frame)

lemma provide_session_present:
  "scope_state w (SESSION_SCOPE_KEY c) = Some s \<Longrightarrow> provide_session self c w = (Inr s, w)"
  by (simp add: provide_session_def get_litestar_scope_state_def)

lemma provide_session_iter:
  "scope_state w (SESSION_SCOPE_KEY c) = Some s \<Longrightarrow>
     ((\<lambda>v. snd (provide_session self c v)) ^^ k) w = w"
  by (induction k) (simp_all add: provide_session_present)

subsection \<open>The autocommit handler\<close>

text \<open>
  Claim C1. For a handler made by \<open>autocommit_handler_maker\<close>, called with a
  response-start message that carries a status while a session is stored in the scope
  state: the handler awaits exactly one of \<open>commit\<close> and \<open>rollback\<close> on that session,
  \<open>commit\<close> if and only if the status is in 200--299 (200--399 with \<open>commit_on_redirect\<close>)
  or in \<open>extra_commit_statuses\<close>, and not in \<open>extra_rollback_statuses\<close>, and \<open>rollback\<close> in
  every other case; the only other call is the \<open>close\<close> that follows when response-start
  is a terminus event. The instances that follow run the four cases of the specification (201, 404 and
  301 under the default configuration, 301 with \<open>commit_on_redirect\<close>), and 404 as an
  extra commit status and 200 as an extra rollback status.
\<close>

theorem autocommit_handler_commit_or_rollback:
  assumes "autocommit_handler_maker c cor ecs ers = Inr h"
      and "scope_state w (SESSION_SCOPE_KEY c) = Some s"
      and "msg_type m = HTTP_RESPONSE_START" and "msg_status m = Some st"
  shows "calls (snd (h m w)) = calls w @
           [if commits_spec cor ecs ers st then Commit s else Rollback s] @
           (if HTTP_RESPONSE_START \<in> SESSION_TERMINUS_ASGI_EVENTS c then [Close s] else [])"
  unfolding maker_Inr[OF assms(1)]
  using assms(2-4)
  by (simp add: handler_def get_litestar_scope_state_def snd_try_finally Let_def
      commit_or_rollback_start calls_close_and_clear snd_await del: atLeastLessThan_iff)

theorem autocommit_handler_commit_or_rollback_witness:
  "autocommit_handler_maker common_example False None None =
     Inr (handler common_example {200 ..< 300} {||} {||}) \<and>
   autocommit_handler_maker common_example True None None =
     Inr (handler common_example {200 ..< 400} {||} {||}) \<and>
   calls (snd (handler common_example {200 ..< 300} {||} {||}
     \<lparr>msg_type = HTTP_RESPONSE_START, msg_status = Some 201\<rparr> world_example)) =
     [Commit 0, Close 0] \<and>
   calls (snd (handler common_example {200 ..< 300} {||} {||}
     \<lparr>msg_type = HTTP_RESPONSE_START, msg_status = Some 404\<rparr> world_example)) =
     [Rollback 0, Close 0] \<and>
   calls (snd (handler common_example {200 ..< 300} {||} {||}
     \<lparr>msg_type = HTTP_RESPONSE_START, msg_status = Some 301\<rparr> world_example)) =
     [Rollback 0, Close 0] \<and>
   calls (snd (handler common_example {200 ..< 400} {||} {||}
     \<lparr>msg_type = HTTP_RESPONSE_START, msg_status = Some 301\<rparr> world_example)) =
     [Commit 0, Close 0] \<and>
   autocommit_handler_maker common_example False (Some {|404|}) (Some {|200|}) =
     Inr (handler common_example {200 ..< 300} {|404|} {|200|}) \<and>
   calls (snd (handler common_example {200 ..< 300} {|404|} {|200|}
     \<lparr>msg_type = HTTP_RESPONSE_START, msg_status = Some 404\<rparr> world_example)) =
     [Commit 0, Close 0] \<and>
   calls (snd (handler common_example {200 ..< 300} {|404|} {|200|}
     \<lparr>msg_type = HTTP_RESPONSE_START, msg_status = Some 200\<rparr> world_example)) =
     [Rollback 0, Close 0]"
proof -
  have mk2: "autocommit_handler_maker common_example False (Some {|404|}) (Some {|200|}) =
      Inr (handler common_example {200 ..< 300} {|404|} {|200|})"
    by (simp add: autocommit_handler_maker_def statuses_or_empty_def)
  have mk: "autocommit_handler_maker common_example False None None =
      Inr (handler common_example {200 ..< 300} {||} {||})"
    by (simp add: autocommit_handler_maker_def statuses_or_empty_def)
  have mk': "autocommit_handler_maker common_example True None None =
      Inr (handler common_example {200 ..< 400} {||} {||})"
    by (simp add: autocommit_handler_maker_def statuses_or_empty_def)
  have key: "scope_state world_example (SESSION_SCOPE_KEY common_example) = Some 0"
    by (simp add: world_example_def common_example_def)
  have t: "HTTP_RESPONSE_START \<in> SESSION_TERMINUS_ASGI_EVENTS common_example"
    by (simp add: common_example_def HTTP_RESPONSE_START_def)
  have e: "calls world_example = []" by (simp add: world_example_def)
  note a = autocommit_handler_commit_or_rollback[OF mk key,
      of "\<lparr>msg_type = HTTP_RESPONSE_START, msg_status = Some 201\<rparr>" 201]
    and b = autocommit_handler_commit_or_rollback[OF mk key,
      of "\<lparr>msg_type = HTTP_RESPONSE_START, msg_status = Some 404\<rparr>" 404]
    and c = autocommit_handler_commit_or_rollback[OF mk key,
      of "\<lparr>msg_type = HTTP_RESPONSE_START, msg_status = Some 301\<rparr>" 301]
    and d = autocommit_handler_commit_or_rollback[OF mk' key,
      of "\<lparr>msg_type = HTTP_RESPONSE_START, msg_status = Some 301\<rparr>" 301]
    and f = autocommit_handler_commit_or_rollback[OF mk2 key,
      of "\<lparr>msg_type = HTTP_RESPONSE_START, msg_status = Some 404\<rparr>" 404]
    and g = autocommit_handler_commit_or_rollback[OF mk2 key,
      of "\<lparr>msg_type = HTTP_RESPONSE_START, msg_status = Some 200\<rparr>" 200]
  from a b c d f g mk mk' mk2 show ?thesis
    by (simp add: t e commits_spec_def statuses_or_empty_def)
qed

text \<open>
  Claim C2. For a handler made by \<open>autocommit_handler_maker\<close>, called with a session in
  the scope state and a message whose type is a session-terminus event: whatever \<open>commit\<close>
  or \<open>rollback\<close> answered, the handler awaits \<open>close\<close> on the session as its last call;
  and when that \<open>close\<close> returns, the session key is removed from the scope state, and an
  exception raised by the \<open>commit\<close> or \<open>rollback\<close> of a response-start message is the
  outcome of the handler.
\<close>

theorem autocommit_handler_cleanup:
  assumes "autocommit_handler_maker c cor ecs ers = Inr h"
      and "scope_state w (SESSION_SCOPE_KEY c) = Some s"
      and "msg_type m \<in> SESSION_TERMINUS_ASGI_EVENTS c"
  shows "\<exists>before. calls (snd (h m w)) = calls w @ before @ [Close s] \<and>
           (store w (calls w @ before) (Close s) = None \<longrightarrow>
              scope_state (snd (h m w)) (SESSION_SCOPE_KEY c) = None \<and>
              (\<forall>st e. msg_type m = HTTP_RESPONSE_START \<and> msg_status m = Some st \<and>
                 store w (calls w)
                   (if commits_spec cor ecs ers st then Commit s else Rollback s) = Some e
                 \<longrightarrow> fst (h m w) = Inl e))"
proof -
  define r where "r = {200 ..< (if \<not> cor then (300::int) else 400)}"
  define a where "a = statuses_or_empty ecs"
  define b where "b = statuses_or_empty ers"
  define body where "body = commit_or_rollback r a b m (Some s) w"
  have h: "h = handler c r a b"
    unfolding r_def a_def b_def by (rule maker_Inr[OF assms(1)])
  note run = handler_on_terminus[OF assms(2,3), of r a b, folded body_def]
  obtain before where before: "calls (snd body) = calls w @ before"
    unfolding body_def using calls_commit_or_rollback by blast
  have closed: "calls (snd (h m w)) = calls w @ before @ [Close s]"
    by (simp add: h run Let_def before split: option.splits)
  have cleared: "scope_state (snd (h m w)) (SESSION_SCOPE_KEY c) = None"
    if "store w (calls w @ before) (Close s) = None"
    using that by (simp add: h run Let_def before)
  have raised: "fst (h m w) = Inl e"
    if "store w (calls w @ before) (Close s) = None"
      and "msg_type m = HTTP_RESPONSE_START" and "msg_status m = Some st"
      and "store w (calls w) (if commits_spec cor ecs ers st then Commit s else Rollback s)
             = Some e"
    for st e
  proof -
    from that(2,3) have "fst body =
        fst (await (if commits_spec cor ecs ers st then Commit s else Rollback s) w)"
      unfolding body_def r_def a_def b_def by (simp only: commit_or_rollback_start)
    with that(4) have "fst body = Inl e" by (simp add: fst_await)
    with that(1) show ?thesis by (simp add: h run Let_def before)
  qed
  show ?thesis
  proof (intro exI[where x = before] conjI impI allI)
    show "calls (snd (h m w)) = calls w @ before @ [Close s]" by (rule closed)
  next
    assume "store w (calls w @ before) (Close s) = None"
    then show "scope_state (snd (h m w)) (SESSION_SCOPE_KEY c) = None" by (rule cleared)
  next
    fix st e
    assume "store w (calls w @ before) (Close s) = None"
      and "msg_type m = HTTP_RESPONSE_START \<and> msg_status m = Some st \<and>
           store w (calls w)
             (if commits_spec cor ecs ers st then Commit s else Rollback s) = Some e"
    then show "fst (h m w) = Inl e" using raised[of st e] by simp
  qed
qed

theorem autocommit_handler_cleanup_witness:
  "autocommit_handler_maker common_example False None None =
     Inr (handler common_example {200 ..< 300} {||} {||}) \<and>
   handler common_example {200 ..< 300} {||} {||}
     \<lparr>msg_type = HTTP_RESPONSE_START, msg_status = Some 201\<rparr> failing_commit_world =
     (Inl (StoreError ''commit failed''),
      failing_commit_world\<lparr>calls := [Commit 0, Close 0], scope_state := Map.empty\<rparr>)"
proof -
  let ?h = "handler common_example {200 ..< 300} {||} {||}"
  let ?m = "\<lparr>msg_type = HTTP_RESPONSE_START, msg_status = Some 201\<rparr>"
  have mk: "autocommit_handler_maker common_example False None None = Inr ?h"
    by (simp add: autocommit_handler_maker_def statuses_or_empty_def)
  have key: "scope_state failing_commit_world (SESSION_SCOPE_KEY common_example) = Some 0"
    by (simp add: failing_commit_world_def common_example_def)
  have tm: "msg_type ?m \<in> SESSION_TERMINUS_ASGI_EVENTS common_example"
    by (simp add: common_example_def HTTP_RESPONSE_START_def)
  have run: "?h ?m failing_commit_world =
     (Inl (StoreError ''commit failed''),
      failing_commit_world\<lparr>calls := [Commit 0, Close 0], scope_state := Map.empty\<rparr>)"
    by (simp add: handler_def get_litestar_scope_state_def try_finally_def
        commit_or_rollback_def close_and_clear_def seq_def await_def
        delete_litestar_scope_state_def failing_commit_world_def common_example_def
        HTTP_RESPONSE_START_def)
  from autocommit_handler_cleanup[OF mk key tm] mk run show ?thesis by simp
qed

text \<open>
  Claim C3. \<open>autocommit_handler_maker\<close> fails, when the handler is made and so before any
  message or scope is at hand, if and only if \<open>extra_commit_statuses\<close> and
  \<open>extra_rollback_statuses\<close> share a status code; it returns a handler if and only if they
  share none, and so whenever either set is absent.
\<close>

theorem autocommit_handler_maker_fails_iff_overlap:
  "((\<exists>e. autocommit_handler_maker c cor ecs ers = Inl e) =
      (\<exists>x. x |\<in>| statuses_or_empty ecs \<and> x |\<in>| statuses_or_empty ers)) \<and>
   ((\<exists>h. autocommit_handler_maker c cor ecs ers = Inr h) =
      (\<not> (\<exists>x. x |\<in>| statuses_or_empty ecs \<and> x |\<in>| statuses_or_empty ers))) \<and>
   (ecs = None \<or> ers = None \<longrightarrow> (\<exists>h. autocommit_handler_maker c cor ecs ers = Inr h))"
  by (auto simp: autocommit_handler_maker_def Let_def fcard_inter_pos statuses_or_empty_def
      simp del: neq0_conv split: option.splits)

theorem autocommit_handler_maker_fails_iff_overlap_witness:
  "(\<exists>e. autocommit_handler_maker common_example False (Some {|201, 409|}) (Some {|409|})
          = Inl e) \<and>
   (\<exists>h. autocommit_handler_maker common_example False (Some {|201, 409|}) (Some {|410|})
          = Inr h) \<and>
   (\<exists>h. autocommit_handler_maker common_example False None (Some {|410|}) = Inr h)"
  using autocommit_handler_maker_fails_iff_overlap
      [of common_example False "Some {|201, 409|}" "Some {|409|}"]
    autocommit_handler_maker_fails_iff_overlap
      [of common_example False "Some {|201, 409|}" "Some {|410|}"]
    autocommit_handler_maker_fails_iff_overlap
      [of common_example False None "Some {|410|}"]
  by (simp add: statuses_or_empty_def)

subsection \<open>The default handler\<close>

text \<open>
  Claim C6. \<open>default_before_send_handler\<close>, when a session is stored and the message type
  is a session-terminus event, awaits \<open>close\<close> on the session and nothing else, and, when
  \<open>close\<close> returns, removes the session key from the scope state; when no session is
  stored or the message is of another type it returns with the whole state as it was. In
  no case does it add a \<open>commit\<close> or a \<open>rollback\<close> to the calls.
\<close>

theorem default_before_send_handler_closes:
  "(\<forall>s. scope_state w (SESSION_SCOPE_KEY c) = Some s \<and>
         msg_type m \<in> SESSION_TERMINUS_ASGI_EVENTS c \<longrightarrow>
      calls (snd (default_before_send_handler c m w)) = calls w @ [Close s] \<and>
      (store w (calls w) (Close s) = None \<longrightarrow>
         default_before_send_handler c m w =
           (Inr (), w\<lparr>calls := calls w @ [Close s],
                      scope_state := (scope_state w)(SESSION_SCOPE_KEY c := None)\<rparr>))) \<and>
   (scope_state w (SESSION_SCOPE_KEY c) = None \<or>
      msg_type m \<notin> SESSION_TERMINUS_ASGI_EVENTS c \<longrightarrow>
      default_before_send_handler c m w = (Inr (), w)) \<and>
   (\<forall>n. (Commit n \<in> set (calls (snd (default_before_send_handler c m w)))) =
          (Commit n \<in> set (calls w)) \<and>
        (Rollback n \<in> set (calls (snd (default_before_send_handler c m w)))) =
          (Rollback n \<in> set (calls w)))"
proof -
  have a: "calls (snd (default_before_send_handler c m w)) = calls w @ [Close s] \<and>
      (store w (calls w) (Close s) = None \<longrightarrow>
         default_before_send_handler c m w =
           (Inr (), w\<lparr>calls := calls w @ [Close s],
                      scope_state := (scope_state w)(SESSION_SCOPE_KEY c := None)\<rparr>))"
    if "scope_state w (SESSION_SCOPE_KEY c) = Some s"
      and "msg_type m \<in> SESSION_TERMINUS_ASGI_EVENTS c" for s
    using that
    by (simp add: default_before_send_handler_def get_litestar_scope_state_def
        close_and_clear_terminus split: option.splits)
  have b: "default_before_send_handler c m w = (Inr (), w)"
    if "scope_state w (SESSION_SCOPE_KEY c) = None \<or>
        msg_type m \<notin> SESSION_TERMINUS_ASGI_EVENTS c"
    using that
    by (auto simp: default_before_send_handler_def get_litestar_scope_state_def
        close_and_clear_def split: option.splits)
  have d: "(Commit n \<in> set (calls (snd (default_before_send_handler c m w)))) =
             (Commit n \<in> set (calls w)) \<and>
           (Rollback n \<in> set (calls (snd (default_before_send_handler c m w)))) =
             (Rollback n \<in> set (calls w))" for n
  proof (cases "scope_state w (SESSION_SCOPE_KEY c)")
    case None
    then show ?thesis by (simp add: b)
  next
    case (Some s)
    show ?thesis
    proof (cases "msg_type m \<in> SESSION_TERMINUS_ASGI_EVENTS c")
      case True
      with a[OF Some] show ?thesis by simp
    next
      case False
      then show ?thesis by (simp add: b)
    qed
  qed
  from a b d show ?thesis by blast
qed

theorem default_before_send_handler_closes_witness:
  "default_before_send_handler common_example
     \<lparr>msg_type = ''http.disconnect'', msg_status = None\<rparr> world_example =
     (Inr (), world_example\<lparr>calls := [Close 0], scope_state := Map.empty\<rparr>) \<and>
   default_before_send_handler common_example
     \<lparr>msg_type = ''http.response.body'', msg_status = None\<rparr> world_example =
     (Inr (), world_example) \<and>
   default_before_send_handler common_example
     \<lparr>msg_type = ''http.disconnect'', msg_status = None\<rparr> fresh_world =
     (Inr (), fresh_world)"
proof -
  let ?m = "\<lparr>msg_type = ''http.disconnect'', msg_status = None\<rparr>"
  let ?m' = "\<lparr>msg_type = ''http.response.body'', msg_status = None\<rparr>"
  have key: "scope_state world_example (SESSION_SCOPE_KEY common_example) = Some 0"
    by (simp add: world_example_def common_example_def)
  have nokey: "scope_state fresh_world (SESSION_SCOPE_KEY common_example) = None"
    by (simp add: fresh_world_def)
  have tm: "msg_type ?m \<in> SESSION_TERMINUS_ASGI_EVENTS common_example"
    by (simp add: common_example_def)
  have tm': "msg_type ?m' \<notin> SESSION_TERMINUS_ASGI_EVENTS common_example"
    by (simp add: common_example_def)
  have ok: "store world_example (calls world_example) (Close 0) = None"
      and e: "calls world_example = []"
    by (simp_all add: world_example_def)
  have upd: "(scope_state world_example)(SESSION_SCOPE_KEY common_example := None) = Map.empty"
    by (rule ext) (simp add: world_example_def common_example_def)
  from default_before_send_handler_closes[of world_example common_example ?m] key tm ok
  have 1: "default_before_send_handler common_example ?m world_example =
     (Inr (), world_example\<lparr>calls := [Close 0], scope_state := Map.empty\<rparr>)"
    by (simp add: e upd)
  from default_before_send_handler_closes[of world_example common_example ?m'] tm'
  have 2: "default_before_send_handler common_example ?m' world_example = (Inr (), world_example)"
    by simp
  from default_before_send_handler_closes[of fresh_world common_example ?m] nokey
  have 3: "default_before_send_handler common_example ?m fresh_world = (Inr (), fresh_world)"
    by simp
  from 1 2 3 show ?thesis by simp
qed

subsection \<open>Providers and shutdown\<close>

text \<open>
  Claim C5. In a scope with no session stored, and with a session maker in the application
  state, the first call of \<open>provide_session\<close> makes one session, stores it under the
  session key and returns it; every later call in that scope, however many came before,
  returns the same session and changes nothing, so no second session is made. In any
  state, a call that finds a session stored returns it and changes nothing. Neither
  handler makes a session: none exists before the first call of \<open>provide_session\<close>.
\<close>

theorem provide_session_once_per_scope:
  assumes "scope_state w (SESSION_SCOPE_KEY c) = None"
      and "app_state w (session_maker_app_state_key self) = Some (SessionMaker n)"
  shows "provide_session self c w =
           (Inr (created w),
            w\<lparr>created := Suc (created w),
              scope_state := (scope_state w)(SESSION_SCOPE_KEY c \<mapsto> created w)\<rparr>) \<and>
         (\<forall>k. provide_session self c
                (((\<lambda>v. snd (provide_session self c v)) ^^ k) (snd (provide_session self c w))) =
              (Inr (created w), snd (provide_session self c w))) \<and>
         (\<forall>v s. scope_state v (SESSION_SCOPE_KEY c) = Some s \<longrightarrow>
                provide_session self c v = (Inr s, v)) \<and>
         (\<forall>m v. created (snd (default_before_send_handler c m v)) = created v) \<and>
         (\<forall>r a b m v. created (snd (handler c r a b m v)) = created v)"
proof -
  let ?w1 = "w\<lparr>created := Suc (created w),
              scope_state := (scope_state w)(SESSION_SCOPE_KEY c \<mapsto> created w)\<rparr>"
  have first: "provide_session self c w = (Inr (created w), ?w1)"
    using assms
    by (simp add: provide_session_def get_litestar_scope_state_def state_getitem_def
        set_litestar_scope_state_def Let_def)
  have stored: "scope_state ?w1 (SESSION_SCOPE_KEY c) = Some (created w)" by simp
  have "provide_session self c (((\<lambda>v. snd (provide_session self c v)) ^^ k) ?w1) =
          (Inr (created w), ?w1)" for k
    by (simp only: provide_session_iter[OF stored] provide_session_present[OF stored])
  with first show ?thesis
    by (simp add: created_handler created_default_before_send_handler provide_session_present)
qed

theorem provide_session_once_per_scope_witness:
  "provide_session default_config common_example fresh_world =
     (Inr 0, fresh_world\<lparr>created := 1, scope_state := [''_sqlalchemy_db_session'' \<mapsto> 0]\<rparr>) \<and>
   provide_session default_config common_example
     (fresh_world\<lparr>created := 1, scope_state := [''_sqlalchemy_db_session'' \<mapsto> 0]\<rparr>) =
     (Inr 0, fresh_world\<lparr>created := 1, scope_state := [''_sqlalchemy_db_session'' \<mapsto> 0]\<rparr>)"
proof -
  have nokey: "scope_state fresh_world (SESSION_SCOPE_KEY common_example) = None"
    by (simp add: fresh_world_def)
  have mk: "app_state fresh_world (session_maker_app_state_key default_config) =
      Some (SessionMaker 0)"
    by (simp add: fresh_world_def default_config_def)
  note t = provide_session_once_per_scope[OF nokey mk]
  have c: "created fresh_world = 0" and s: "scope_state fresh_world = Map.empty"
    and k: "SESSION_SCOPE_KEY common_example = ''_sqlalchemy_db_session''"
    by (simp_all add: fresh_world_def common_example_def)
  from t have 1: "provide_session default_config common_example fresh_world =
     (Inr 0, fresh_world\<lparr>created := 1, scope_state := [''_sqlalchemy_db_session'' \<mapsto> 0]\<rparr>)"
    by (simp add: c s k)
  from t have "provide_session default_config common_example
      (((\<lambda>v. snd (provide_session default_config common_example v)) ^^ 0)
         (snd (provide_session default_config common_example fresh_world))) =
      (Inr (created fresh_world), snd (provide_session default_config common_example fresh_world))"
    by blast
  with 1 show ?thesis by (simp add: c)
qed

text \<open>
  Claim C9. When an engine is stored under \<open>engine_app_state_key\<close>, \<open>on_shutdown\<close> removes
  the key from the application state and awaits \<open>dispose\<close> on that engine, once; a
  second call finds no key, raises \<open>KeyError\<close> and awaits nothing, so the engine is not
  disposed again.
\<close>

theorem on_shutdown_disposes_once:
  assumes "app_state w (engine_app_state_key self) = Some (Engine n)"
  shows "app_state (snd (on_shutdown self w)) (engine_app_state_key self) = None \<and>
         calls (snd (on_shutdown self w)) = calls w @ [Dispose n] \<and>
         on_shutdown self (snd (on_shutdown self w)) =
           (Inl (KeyError (engine_app_state_key self)), snd (on_shutdown self w))"
  using assms by (simp add: on_shutdown_def state_pop_def await_def)

theorem on_shutdown_disposes_once_witness:
  "app_state (snd (on_shutdown default_config world_example)) ''db_engine'' = None \<and>
   calls (snd (on_shutdown default_config world_example)) = [Dispose 0] \<and>
   on_shutdown default_config (snd (on_shutdown default_config world_example)) =
     (Inl (KeyError ''db_engine''), snd (on_shutdown default_config world_example))"
proof -
  have "app_state world_example (engine_app_state_key default_config) = Some (Engine 0)"
    by (simp add: world_example_def default_config_def)
  from on_shutdown_disposes_once[OF this] show ?thesis
    by (simp add: default_config_def world_example_def)
qed

text \<open>
  Claim C10. \<open>provide_engine\<close> returns what the application state holds under
  \<open>engine_app_state_key\<close>; when nothing is stored there it returns \<open>None\<close>, and it has no
  exception among its outcomes.
\<close>

theorem provide_engine_returns_stored_or_none:
  "provide_engine self st = st (engine_app_state_key self) \<and>
   (st (engine_app_state_key self) = None \<longrightarrow> provide_engine self st = None)"
  by (simp add: provide_engine_def state_get_def)

theorem provide_engine_returns_stored_or_none_witness:
  "provide_engine default_config Map.empty = None \<and>
   provide_engine default_config [''db_engine'' \<mapsto> Engine 0] = Some (Engine 0)"
  using provide_engine_returns_stored_or_none[of default_config Map.empty]
    provide_engine_returns_stored_or_none[of default_config "[''db_engine'' \<mapsto> Engine 0]"]
  by (simp add: default_config_def)

section \<open>Properties of the service layer\<close>

subsection \<open>Auxiliary facts\<close>

lemma invoke_changes: "invoke k d \<noteq> (r, d)"
proof
  assume "invoke k d = (r, d)"
  then have "repo_calls (snd (invoke k d)) = repo_calls d" by simp
  then show False by (simp add: invoke_def)
qed

lemma fst_invoke: "fst (invoke k d) = repo_answer d (repo_calls d) k"
  by (simp add: invoke_def)

lemma to_model_error: "to_model self data operation = Inl e \<Longrightarrow> e = multiple_values ''model''"
  by (auto simp: to_model_def keyword_clash_def split: payload.splits option.splits if_splits)

lemma multiple_values_not_repository: "multiple_values name \<noteq> RepositoryError msg"
  by (simp add: multiple_values_def)

lemma to_model_entity: "to_model self (Model item) operation = Inr item"
  by (simp add: to_model_def)

lemma to_model_mapping:
  "kwargs ''model'' = None \<Longrightarrow>
     to_model self (Dict kwargs) operation =
       Inr \<lparr>model_class = model_type (repository self),
            attrs = (\<lambda>k. case kwargs k of None \<Rightarrow> None | Some v \<Rightarrow> v)\<rparr>"
  by (simp add: to_model_def keyword_clash_def model_from_dict_def)

lemma to_model_model_key:
  "kwargs ''model'' = Some v \<Longrightarrow>
     to_model self (Dict kwargs) operation = Inl (multiple_values ''model'')"
  by (simp add: to_model_def keyword_clash_def)

lemma to_model_each_Inr:
  "to_model_each self data operation = Inr items \<Longrightarrow>
     list_all2 (\<lambda>datum item. to_model self datum operation = Inr item) data items"
  by (induction data arbitrary: items) (auto split: sum.splits)


text \<open>
  What each write operation hands to the repository: the conversion of its input, or
  nothing when the conversion raises.
\<close>

lemma create_converts:
  "create self data d =
     (case to_model self data (Some ''create'') of
        Inl e \<Rightarrow> (Inl e, d) | Inr item \<Rightarrow> invoke (Add item) d)"
  by (simp add: create_def)

lemma many_convert:
  "create_many self data kw d =
     (case to_model_each self data (Some ''create'') of
        Inl e \<Rightarrow> (Inl e, d) | Inr items \<Rightarrow> invoke (AddMany items kw) d) \<and>
   update_many self data kw d =
     (case to_model_each self data (Some ''update'') of
        Inl e \<Rightarrow> (Inl e, d) | Inr items \<Rightarrow> invoke (UpdateMany items kw) d) \<and>
   upsert_many self data kw d =
     (case to_model_each self data (Some ''upsert'') of
        Inl e \<Rightarrow> (Inl e, d) | Inr items \<Rightarrow> invoke (UpsertMany items kw) d)"
  by (simp add: create_many_def update_many_def upsert_many_def)

lemma get_or_upsert_converts:
  assumes "to_model self (Dict kwargs) (Some ''create'') = Inr item"
  shows "get_or_upsert self mf kw kwargs d =
     (case keyword_clash [''match_fields'', ''upsert'', ''attribute_names'',
             ''with_for_update'', ''auto_commit'', ''auto_expunge'', ''auto_refresh'']
             (to_dict item) of
        Some name \<Rightarrow> (Inl (multiple_values name), d)
      | None \<Rightarrow>
          invoke (GetOrUpsert
            (case mf of None \<Rightarrow> match_fields self | Some [] \<Rightarrow> match_fields self
             | Some (f # fs) \<Rightarrow> Some (f # fs))
            (to_dict item) kw) d)"
  using assms by (simp add: get_or_upsert_def Let_def)

subsection \<open>\<open>update\<close> and \<open>upsert\<close>\<close>

text \<open>
  Claim C4. For every input, \<open>update\<close> fails with \<open>RepositoryError\<close> without an operation
  of the repository having been awaited (the unit-of-work is returned as it was) exactly
  when \<open>item_id\<close> is \<open>None\<close> and \<open>data\<close> converts to a model whose identifier attribute is
  \<open>None\<close>; the error is then a function of the arguments alone. When the conversion
  itself raises (a dictionary with the key \<open>model\<close>), \<open>update\<close> raises that exception, which
  is not a \<open>RepositoryError\<close>, and awaits nothing. In every other case \<open>update\<close> is the
  \<open>update\<close> of the repository on the converted model (with the identifier set when
  \<open>item_id\<close> is given), whose outcome it returns; so when the repository raises no
  \<open>RepositoryError\<close> of its own, \<open>update\<close> raises one exactly in the case above.
\<close>

theorem update_requires_identifier:
  "((\<exists>msg. update self data item_id id_attr kw d = (Inl (RepositoryError msg), d)) =
      (item_id = None \<and>
       (\<exists>m. to_model self data (Some ''update'') = Inr m \<and>
            get_id_attribute_value (repository self) m (id_attribute_str id_attr) = None))) \<and>
   (\<forall>m. to_model self data (Some ''update'') = Inr m \<and> item_id = None \<and>
        get_id_attribute_value (repository self) m (id_attribute_str id_attr) = None \<longrightarrow>
      update self data item_id id_attr kw d =
        (Inl (RepositoryError
           (could_not_identify (repository self) (id_attribute_str id_attr))), d)) \<and>
   (\<forall>m. to_model self data (Some ''update'') = Inr m \<and>
        \<not> (item_id = None \<and>
           get_id_attribute_value (repository self) m (id_attribute_str id_attr) = None) \<longrightarrow>
      update self data item_id id_attr kw d =
        invoke (Update (if item_id = None then m
                        else set_id_attribute_value (repository self) item_id m
                               (id_attribute_str id_attr))
                  (id_attribute_str id_attr) kw) d) \<and>
   (\<forall>e. to_model self data (Some ''update'') = Inl e \<longrightarrow>
      update self data item_id id_attr kw d = (Inl e, d) \<and> (\<forall>msg. e \<noteq> RepositoryError msg)) \<and>
   ((\<forall>k msg. repo_answer d (repo_calls d) k \<noteq> Inl (RepositoryError msg)) \<longrightarrow>
      (\<exists>msg. fst (update self data item_id id_attr kw d) = Inl (RepositoryError msg)) =
      (item_id = None \<and>
       (\<exists>m. to_model self data (Some ''update'') = Inr m \<and>
            get_id_attribute_value (repository self) m (id_attribute_str id_attr) = None)))"
proof (cases "to_model self data (Some ''update'')")
  case (Inl e)
  then have "e = multiple_values ''model''" by (rule to_model_error)
  with Inl show ?thesis
    by (simp add: update_def multiple_values_def)
next
  case (Inr m)
  show ?thesis
  proof (cases "item_id = None \<and>
      get_id_attribute_value (repository self) m (id_attribute_str id_attr) = None")
    case True
    with Inr show ?thesis by (simp add: update_def Let_def)
  next
    case False
    with Inr have run: "update self data item_id id_attr kw d =
        invoke (Update (if item_id = None then m
                        else set_id_attribute_value (repository self) item_id m
                               (id_attribute_str id_attr))
                  (id_attribute_str id_attr) kw) d"
      by (auto simp: update_def Let_def)
    from False Inr show ?thesis
      unfolding run by (auto simp: invoke_changes fst_invoke)
  qed
qed

theorem update_requires_identifier_witness:
  "update service_example (Dict [''name'' \<mapsto> Some 5]) None None () unit_of_work_example =
     (Inl (RepositoryError (could_not_identify (repository service_example) None)),
      unit_of_work_example) \<and>
   update service_example (Dict [''name'' \<mapsto> Some 5]) (Some 3) None () unit_of_work_example =
     invoke (Update \<lparr>model_class = ''BigIntAuthor'', attrs = [''name'' \<mapsto> 5, ''id'' \<mapsto> 3]\<rparr>
       None ()) unit_of_work_example \<and>
   update service_example (Dict [''id'' \<mapsto> Some 3]) None None () unit_of_work_example =
     invoke (Update \<lparr>model_class = ''BigIntAuthor'', attrs = [''id'' \<mapsto> 3]\<rparr> None ())
       unit_of_work_example \<and>
   update service_example (Dict [''model'' \<mapsto> Some 5]) None None () unit_of_work_example =
     (Inl (multiple_values ''model''), unit_of_work_example) \<and>
   \<not> (\<exists>msg. fst (update service_example (Dict [''name'' \<mapsto> Some 5]) (Some 3) None ()
                      unit_of_work_example) = Inl (RepositoryError msg))"
proof -
  let ?name = "\<lparr>model_class = ''BigIntAuthor'', attrs = [''name'' \<mapsto> 5::int]\<rparr>"
  let ?id = "\<lparr>model_class = ''BigIntAuthor'', attrs = [''id'' \<mapsto> 3::int]\<rparr>"
  have m1: "to_model service_example (Dict [''name'' \<mapsto> Some (5::int)]) (Some ''update'') =
      Inr ?name"
    by (auto simp: to_model_mapping service_example_def)
  have m2: "to_model service_example (Dict [''id'' \<mapsto> Some (3::int)]) (Some ''update'') =
      Inr ?id"
    by (auto simp: to_model_mapping service_example_def)
  have m3: "to_model service_example (Dict [''model'' \<mapsto> Some (5::int)]) (Some ''update'') =
      Inl (multiple_values ''model'')"
    by (simp add: to_model_model_key)
  have g1: "get_id_attribute_value (repository service_example) ?name (id_attribute_str None) = None"
    and g2: "get_id_attribute_value (repository service_example) ?id (id_attribute_str None) = Some 3"
    by (simp_all add: get_id_attribute_value_def id_attribute_str_def service_example_def)
  have s: "set_id_attribute_value (repository service_example) (Some 3) ?name None =
      \<lparr>model_class = ''BigIntAuthor'', attrs = [''name'' \<mapsto> 5, ''id'' \<mapsto> 3]\<rparr>"
    by (simp add: set_id_attribute_value_def service_example_def)
  note t1 = update_requires_identifier[of service_example "Dict [''name'' \<mapsto> Some 5]" None None "()"
      unit_of_work_example, THEN conjunct2, THEN conjunct1, rule_format, of ?name]
  note t2 = update_requires_identifier[of service_example "Dict [''name'' \<mapsto> Some 5]" "Some 3" None "()"
      unit_of_work_example, THEN conjunct2, THEN conjunct2, THEN conjunct1, rule_format,
      of ?name]
  note t3 = update_requires_identifier[of service_example "Dict [''id'' \<mapsto> Some 3]" None None "()"
      unit_of_work_example, THEN conjunct2, THEN conjunct2, THEN conjunct1, rule_format,
      of ?id]
  note t4 = update_requires_identifier[of service_example "Dict [''model'' \<mapsto> Some 5]" None None "()"
      unit_of_work_example, THEN conjunct2, THEN conjunct2, THEN conjunct2, THEN conjunct1,
      rule_format, of "multiple_values ''model''"]
  have a: "update service_example (Dict [''name'' \<mapsto> Some 5]) None None () unit_of_work_example =
     (Inl (RepositoryError (could_not_identify (repository service_example) None)),
      unit_of_work_example)"
    using t1 m1 g1 by (simp add: id_attribute_str_def)
  have b: "update service_example (Dict [''name'' \<mapsto> Some 5]) (Some 3) None ()
      unit_of_work_example =
     invoke (Update \<lparr>model_class = ''BigIntAuthor'', attrs = [''name'' \<mapsto> 5, ''id'' \<mapsto> 3]\<rparr>
       None ()) unit_of_work_example"
    using t2 m1 s by (simp add: id_attribute_str_def)
  have c: "update service_example (Dict [''id'' \<mapsto> Some 3]) None None () unit_of_work_example =
     invoke (Update ?id None ()) unit_of_work_example"
    using t3 m2 g2 by (simp add: id_attribute_str_def)
  have d: "update service_example (Dict [''model'' \<mapsto> Some 5]) None None ()
      unit_of_work_example = (Inl (multiple_values ''model''), unit_of_work_example)"
    using t4 m3 by simp
  have quiet: "\<forall>k msg. repo_answer unit_of_work_example (repo_calls unit_of_work_example) k
      \<noteq> Inl (RepositoryError msg)"
    by (simp add: unit_of_work_example_def)
  note t5 = update_requires_identifier[of service_example "Dict [''name'' \<mapsto> Some 5]"
      "Some 3" None "()" unit_of_work_example, THEN conjunct2, THEN conjunct2, THEN conjunct2,
      THEN conjunct2]
  from t5 quiet
  have e: "\<not> (\<exists>msg. fst (update service_example (Dict [''name'' \<mapsto> Some 5]) (Some 3) None ()
                      unit_of_work_example) = Inl (RepositoryError msg))"
    by simp
  from a b c d e show ?thesis by simp
qed


text \<open>
  Claim C7. When \<open>to_model\<close> returns a model for \<open>data\<close>, \<open>upsert\<close> hands to the \<open>upsert\<close> of
  the repository that model with its identifier attribute set to \<open>item_id\<close>, also when
  \<open>item_id\<close> is \<open>None\<close> and whatever identifier \<open>data\<close> carried, and with every other
  attribute as converted. When \<open>to_model\<close> raises, \<open>upsert\<close> raises the same and awaits
  nothing. So in every call, what \<open>upsert\<close> hands to the repository, if anything, has
  \<open>item_id\<close> as its identifier.
\<close>

theorem upsert_sets_identifier:
  "(\<forall>m. to_model self data (Some ''upsert'') = Inr m \<longrightarrow>
      upsert self data item_id kw d =
        invoke (Upsert (m\<lparr>attrs := (attrs m)(id_attribute (repository self) := item_id)\<rparr>) kw) d) \<and>
   (\<forall>e. to_model self data (Some ''upsert'') = Inl e \<longrightarrow>
      upsert self data item_id kw d = (Inl e, d)) \<and>
   (repo_calls (snd (upsert self data item_id kw d)) = repo_calls d \<or>
    (\<exists>item. repo_calls (snd (upsert self data item_id kw d)) = repo_calls d @ [Upsert item kw] \<and>
       get_id_attribute_value (repository self) item None = item_id))"
  by (cases "to_model self data (Some ''upsert'')")
    (simp_all add: upsert_def Let_def set_id_attribute_value_def get_id_attribute_value_def
      invoke_def)


theorem upsert_sets_identifier_witness:
  "upsert service_example
     (Model \<lparr>model_class = ''BigIntAuthor'', attrs = [''id'' \<mapsto> 7, ''name'' \<mapsto> 5]\<rparr>)
     None () unit_of_work_example =
   invoke (Upsert \<lparr>model_class = ''BigIntAuthor'', attrs = [''name'' \<mapsto> 5]\<rparr> ())
     unit_of_work_example \<and>
   upsert service_example (Dict [''name'' \<mapsto> Some 5]) (Some 3) () unit_of_work_example =
   invoke (Upsert \<lparr>model_class = ''BigIntAuthor'', attrs = [''name'' \<mapsto> 5, ''id'' \<mapsto> 3]\<rparr> ())
     unit_of_work_example \<and>
   upsert service_example (Dict [''model'' \<mapsto> Some 5]) (Some 3) () unit_of_work_example =
     (Inl (multiple_values ''model''), unit_of_work_example)"
proof -
  let ?both = "\<lparr>model_class = ''BigIntAuthor'', attrs = [''id'' \<mapsto> 7::int, ''name'' \<mapsto> 5]\<rparr>"
  let ?name = "\<lparr>model_class = ''BigIntAuthor'', attrs = [''name'' \<mapsto> 5::int]\<rparr>"
  have m1: "to_model service_example (Model ?both) (Some ''upsert'') = Inr ?both"
    by (rule to_model_entity)
  have m2: "to_model service_example (Dict [''name'' \<mapsto> Some (5::int)]) (Some ''upsert'') =
      Inr ?name"
    by (auto simp: to_model_mapping service_example_def)
  have m3: "to_model service_example (Dict [''model'' \<mapsto> Some (5::int)]) (Some ''upsert'') =
      Inl (multiple_values ''model'')"
    by (simp add: to_model_model_key)
  have u: "[''id'' \<mapsto> 7::int, ''name'' \<mapsto> 5](''id'' := None) = [''name'' \<mapsto> 5]"
    by (rule ext) simp
  note t1 = upsert_sets_identifier[of service_example "Model ?both" None "()" unit_of_work_example,
      THEN conjunct1, rule_format, OF m1]
  note t2 = upsert_sets_identifier[of service_example "Dict [''name'' \<mapsto> Some 5]" "Some 3" "()"
      unit_of_work_example, THEN conjunct1, rule_format, OF m2]
  note t3 = upsert_sets_identifier[of service_example "Dict [''model'' \<mapsto> Some 5]" "Some 3" "()"
      unit_of_work_example, THEN conjunct2, THEN conjunct1, rule_format, OF m3]
  from t1 t2 t3 show ?thesis by (simp add: u service_example_def)
qed


subsection \<open>The conversion\<close>

text \<open>
  Claim C8. The claim: \<open>to_model\<close> returns an entity as it is, returns for every mapping
  an entity of the bound model type built from the keys and values of the mapping, and
  every write operation of the service converts its input with it before it calls the
  repository. The first and the last part hold (\<open>to_model_entity\<close>, \<open>create_converts\<close>,
  \<open>many_convert\<close>, \<open>get_or_upsert_converts\<close> and the theorems of \<open>update\<close> and \<open>upsert\<close>),
  and so does the second for a mapping without the key \<open>model\<close> (\<open>to_model_mapping\<close>).
  For a mapping with the key \<open>model\<close> the code does not return an entity: the call
  \<open>model_from_dict(model=..., **data)\<close> gives the keyword \<open>model\<close> twice and raises
  \<open>TypeError\<close>, and \<open>create\<close> raises it without reaching the repository. The theorem runs
  the code on the data of a car with a make and a model.
\<close>

theorem to_model_raises_on_model_key:
  "to_model car_service (Dict [''make'' \<mapsto> Some 1, ''model'' \<mapsto> Some (5::int)])
     (Some ''create'') = Inl (multiple_values ''model'') \<and>
   create car_service (Dict [''make'' \<mapsto> Some 1, ''model'' \<mapsto> Some 5])
     unit_of_work_example = (Inl (multiple_values ''model''), unit_of_work_example)"
  by (simp add: create_def to_model_def keyword_clash_def)

end
